theory Spec2Isabelle
  imports Complex_Main "HOL-Library.Sublist" "HOL-Library.Monad_Syntax"
begin

section \<open>web-mini: the CSS minifier of \<open>web_mini/css.py\<close>\<close>

text \<open>
  \<open>minify_css\<close> runs sixteen rewrite stages, in a fixed order, over one string. A
  Python \<open>str\<close> is modelled as a \<open>string\<close>, a list of \<open>char\<close>: one \<open>char\<close> is one code
  point below 256, so \<open>length\<close> is Python's \<open>len\<close> on such text. Fourteen stages are
  \<open>re.sub\<close> calls; each compiled pattern is modelled by a function that tries the
  pattern at the start of the remaining text, as Python's backtracking matcher does, and
  \<open>re_sub\<close> scans the text from left to right with it.
\<close>

subsection \<open>Exceptions\<close>

datatype error = ValueError | IndexError

subsection \<open>Character classes of Python's \<open>re\<close>\<close>

text \<open>
  \<open>\s\<close> on a \<open>str\<close> pattern (and \<open>str.isspace\<close>, which \<open>str.strip\<close> uses) holds for the
  code points 9..13, 28..32, 133 and 160 among those below 256; \<open>\d\<close> holds for
  \<open>0\<close>..\<open>9\<close> there.
\<close>

definition is_space :: "char \<Rightarrow> bool" where
  "is_space c =
     (let n = (of_char c :: nat)
      in (9 \<le> n \<and> n \<le> 13) \<or> (28 \<le> n \<and> n \<le> 32) \<or> n = 133 \<or> n = 160)"

definition is_digit :: "char \<Rightarrow> bool" where
  "is_digit c = (let n = (of_char c :: nat) in 48 \<le> n \<and> n \<le> 57)"

definition is_alpha :: "char \<Rightarrow> bool" where
  "is_alpha c =
     (let n = (of_char c :: nat) in (65 \<le> n \<and> n \<le> 90) \<or> (97 \<le> n \<and> n \<le> 122))"

definition is_hex :: "char \<Rightarrow> bool" where
  "is_hex c =
     (let n = (of_char c :: nat)
      in (48 \<le> n \<and> n \<le> 57) \<or> (65 \<le> n \<and> n \<le> 70) \<or> (97 \<le> n \<and> n \<le> 102))"

subsection \<open>Pieces of a pattern\<close>

text \<open>A literal: the text after it, when the text starts with it.\<close>

definition lit :: "string \<Rightarrow> string \<Rightarrow> string option" where
  "lit p s = (if prefix p s then Some (drop (length p) s) else None)"

text \<open>
  \<open>[class]+\<close>, greedy: the longest run of the class and the text after it. In every
  pattern of \<open>css.py\<close> the piece that follows such a run starts with a character
  outside the class (or the pattern ends), so giving characters back cannot help and the
  longest run is the only one Python's matcher can succeed with.
\<close>

definition many1 :: "(char \<Rightarrow> bool) \<Rightarrow> string \<Rightarrow> (string \<times> string) option" where
  "many1 P s = (if takeWhile P s = [] then None else Some (takeWhile P s, dropWhile P s))"

text \<open>An optional literal \<open>x?\<close>, greedy.\<close>

definition opt_lit :: "string \<Rightarrow> string \<Rightarrow> string" where
  "opt_lit p s = (case lit p s of Some t \<Rightarrow> t | None \<Rightarrow> s)"

text \<open>
  The text after the first occurrence of \<open>p\<close>: what a lazy \<open>.*?\<close> followed by the
  literal \<open>p\<close> leaves (with \<open>re.S\<close>, so \<open>.\<close> also matches a newline).
\<close>

fun after_first :: "string \<Rightarrow> string \<Rightarrow> string option" where
  "after_first p [] = (if p = [] then Some [] else None)"
| "after_first p (c # cs) =
     (if prefix p (c # cs) then Some (drop (length p) (c # cs)) else after_first p cs)"

text \<open>An alternation of literals \<open>a|b|...\<close>: the first alternative that matches wins.\<close>

fun first_alt :: "string list \<Rightarrow> string \<Rightarrow> (string \<times> string) option" where
  "first_alt [] s = None"
| "first_alt (u # us) s =
     (if prefix u s then Some (u, drop (length u) s) else first_alt us s)"

subsection \<open>\<open>Pattern.sub\<close>, \<open>str.replace\<close> and \<open>str.strip\<close>\<close>

text \<open>
  \<open>pat s\<close> tries the pattern at the start of \<open>s\<close> and returns the captured groups and
  the text after the match. \<open>re_sub\<close> is \<open>Pattern.sub\<close> with a template: at each position,
  from the left, a match is replaced and the scan goes on after it; where the pattern
  does not match, the character is copied. No pattern of \<open>css.py\<close> matches the empty
  string (\<open>pat_consumes\<close> below), so the guard on \<open>rest\<close> never takes its second branch.
\<close>

fun re_sub :: "(string \<Rightarrow> ('g \<times> string) option) \<Rightarrow> ('g \<Rightarrow> string) \<Rightarrow> string \<Rightarrow> string" where
  "re_sub pat repl [] = []"
| "re_sub pat repl (c # cs) =
     (case pat (c # cs) of
        None \<Rightarrow> c # re_sub pat repl cs
      | Some (g, rest) \<Rightarrow>
          repl g @ re_sub pat repl (if length rest \<le> length cs then rest else cs))"

text \<open>
  \<open>Pattern.sub\<close> with a function: the function is called on each match, from the left,
  and an exception it raises ends the call.
\<close>

fun re_sub_fn ::
  "(string \<Rightarrow> ('g \<times> string) option) \<Rightarrow> ('g \<Rightarrow> error + string) \<Rightarrow> string \<Rightarrow> error + string"
where
  "re_sub_fn pat fn [] = Inr []"
| "re_sub_fn pat fn (c # cs) =
     (case pat (c # cs) of
        None \<Rightarrow>
          (case re_sub_fn pat fn cs of Inl e \<Rightarrow> Inl e | Inr out \<Rightarrow> Inr (c # out))
      | Some (g, rest) \<Rightarrow>
          (case fn g of
             Inl e \<Rightarrow> Inl e
           | Inr r \<Rightarrow>
               (case re_sub_fn pat fn (if length rest \<le> length cs then rest else cs) of
                  Inl e \<Rightarrow> Inl e
                | Inr out \<Rightarrow> Inr (r @ out))))"

text \<open>
  \<open>str.replace(old, new)\<close>: every occurrence of \<open>old\<close>, from the left and without
  overlap. For an empty \<open>old\<close> Python puts \<open>new\<close> before every character and at the end.
\<close>

fun replace_ne :: "string \<Rightarrow> string \<Rightarrow> string \<Rightarrow> string" where
  "replace_ne old new [] = []"
| "replace_ne old new (c # cs) =
     (if prefix old (c # cs) then new @ replace_ne old new (drop (length old - 1) cs)
      else c # replace_ne old new cs)"

definition py_replace :: "string \<Rightarrow> string \<Rightarrow> string \<Rightarrow> string" where
  "py_replace old new s =
     (if old = [] then new @ concat (map (\<lambda>c. c # new) s) else replace_ne old new s)"

definition strip :: "string \<Rightarrow> string" where
  "strip s = rev (dropWhile is_space (rev (dropWhile is_space s)))"

subsection \<open>The patterns of \<open>css.py\<close>\<close>

text \<open>\<^verbatim>\<open>/\*.*?\*/\<close> with \<open>re.S\<close>.\<close>

definition pat_remove_comments :: "string \<Rightarrow> (unit \<times> string) option" where
  "pat_remove_comments s =
     do { t \<leftarrow> lit ''/*'' s; r \<leftarrow> after_first ''*/'' t; Some ((), r) }"

text \<open>\<^verbatim>\<open>([a-zA-Z]+)="([a-zA-Z0-9-_\.]+)"]\<close>: the class holds letters, digits, \<open>-\<close>, \<open>_\<close> and \<open>.\<close>.\<close>

definition is_selector_value :: "char \<Rightarrow> bool" where
  "is_selector_value c =
     (is_alpha c \<or> is_digit c \<or> c = CHR ''-'' \<or> c = CHR ''_'' \<or> c = CHR ''.'')"

definition pat_unquote_selectors :: "string \<Rightarrow> ((string \<times> string) \<times> string) option" where
  "pat_unquote_selectors s =
     do { (a, t) \<leftarrow> many1 is_alpha s;
          t \<leftarrow> lit [CHR ''='', CHR 0x22] t;
          (v, t) \<leftarrow> many1 is_selector_value t;
          t \<leftarrow> lit [CHR 0x22, CHR '']''] t;
          Some ((a, v), t) }"

text \<open>
  \<^verbatim>\<open>url\((["\'])([^)]*)\1\)\<close>. The greedy \<open>[^)]*\<close> runs up to the first \<open>)\<close>; the
  back-reference and the \<open>)\<close> after it can only match when that run ends with the
  opening quote, which is then given back: group 2 is the run without its last character.
\<close>

definition pat_remove_url_quotes :: "string \<Rightarrow> (string \<times> string) option" where
  "pat_remove_url_quotes s =
     do { t \<leftarrow> lit ''url('' s;
          (case t of
             [] \<Rightarrow> None
           | q # t \<Rightarrow>
               if q = CHR 0x22 \<or> q = CHR 0x27 then
                 (let run = takeWhile (\<lambda>c. c \<noteq> CHR '')'') t;
                      t = dropWhile (\<lambda>c. c \<noteq> CHR '')'') t
                  in if run \<noteq> [] \<and> last run = q
                     then do { t \<leftarrow> lit '')'' t; Some (butlast run, t) }
                     else None)
               else None) }"

text \<open>\<^verbatim>\<open>\s*({|}|:|;|,)\s*\<close>.\<close>

definition is_punct :: "char \<Rightarrow> bool" where
  "is_punct c =
     (c = CHR ''{'' \<or> c = CHR ''}'' \<or> c = CHR '':'' \<or> c = CHR '';'' \<or> c = CHR '','')"

definition pat_remove_whitespace :: "string \<Rightarrow> (char \<times> string) option" where
  "pat_remove_whitespace s =
     (case dropWhile is_space s of
        [] \<Rightarrow> None
      | p # t \<Rightarrow> if is_punct p then Some (p, dropWhile is_space t) else None)"

text \<open>\<^verbatim>\<open>;;+\<close>.\<close>

definition pat_remove_semicolons :: "string \<Rightarrow> (unit \<times> string) option" where
  "pat_remove_semicolons s =
     do { t \<leftarrow> lit '';'' s; (r, t) \<leftarrow> many1 (\<lambda>c. c = CHR '';'') t; Some ((), t) }"

text \<open>\<^verbatim>\<open>(border|opacity):none\<close>.\<close>

definition pat_none_to_zero :: "string \<Rightarrow> (string \<times> string) option" where
  "pat_none_to_zero s =
     do { (p, t) \<leftarrow> first_alt [''border'', ''opacity''] s;
          t \<leftarrow> lit '':none'' t;
          Some (p, t) }"

text \<open>
  \<^verbatim>\<open>([\s:])(0)(em|ex|cap|ch|ic|rem|lh|rlh|vw|vh|vi|vb|vmin|vmax|cqw|cqh|cqi|cqb|cqmin|cqmax|cm|mm|Q|in|pc|pt|px|deg|grad|rad|turn|s|ms|Hz|kHz|dpi|dpcm|dppx|x|fr|%)\<close>:
  nothing follows the alternation, so its first alternative that matches is the one taken.
\<close>

definition zero_units :: "string list" where
  "zero_units =
     [''em'', ''ex'', ''cap'', ''ch'', ''ic'', ''rem'', ''lh'', ''rlh'', ''vw'', ''vh'',
      ''vi'', ''vb'', ''vmin'', ''vmax'', ''cqw'', ''cqh'', ''cqi'', ''cqb'', ''cqmin'', ''cqmax'',
      ''cm'', ''mm'', ''Q'', ''in'', ''pc'', ''pt'', ''px'', ''deg'', ''grad'', ''rad'', ''turn'',
      ''s'', ''ms'', ''Hz'', ''kHz'', ''dpi'', ''dpcm'', ''dppx'', ''x'', ''fr'', ''%'']"

definition pat_sub_zero_units :: "string \<Rightarrow> ((char \<times> char \<times> string) \<times> string) option" where
  "pat_sub_zero_units s =
     (case s of
        c # z # t \<Rightarrow>
          if (is_space c \<or> c = CHR '':'') \<and> z = CHR ''0''
          then do { (u, t) \<leftarrow> first_alt zero_units t; Some ((c, z, u), t) }
          else None
      | _ \<Rightarrow> None)"

text \<open>\<^verbatim>\<open>(:|\s)0+\.(\d+)\<close>.\<close>

definition pat_shorten_floats :: "string \<Rightarrow> ((char \<times> string) \<times> string) option" where
  "pat_shorten_floats s =
     (case s of
        [] \<Rightarrow> None
      | c # t \<Rightarrow>
          if c = CHR '':'' \<or> is_space c
          then do { (zs, t) \<leftarrow> many1 (\<lambda>x. x = CHR ''0'') t;
                    t \<leftarrow> lit ''.'' t;
                    (ds, t) \<leftarrow> many1 is_digit t;
                    Some ((c, ds), t) }
          else None)"

text \<open>\<^verbatim>\<open>rgb\((\d+),\s*(\d+),\s*(\d+)\)\<close>.\<close>

definition pat_rgb2hex :: "string \<Rightarrow> (string list \<times> string) option" where
  "pat_rgb2hex s =
     do { t \<leftarrow> lit ''rgb('' s;
          (r, t) \<leftarrow> many1 is_digit t;
          t \<leftarrow> lit '','' t;
          (g, t) \<leftarrow> many1 is_digit (dropWhile is_space t);
          t \<leftarrow> lit '','' t;
          (b, t) \<leftarrow> many1 is_digit (dropWhile is_space t);
          t \<leftarrow> lit '')'' t;
          Some ([r, g, b], t) }"

text \<open>\<^verbatim>\<open>hsl\((\d+),\s*([\d.]+)%?,\s*([\d.]+)%?\)\<close>.\<close>

definition is_digit_or_dot :: "char \<Rightarrow> bool" where
  "is_digit_or_dot c = (is_digit c \<or> c = CHR ''.'')"

definition pat_hsl2hex :: "string \<Rightarrow> (string list \<times> string) option" where
  "pat_hsl2hex s =
     do { t \<leftarrow> lit ''hsl('' s;
          (h, t) \<leftarrow> many1 is_digit t;
          t \<leftarrow> lit '','' t;
          (sat, t) \<leftarrow> many1 is_digit_or_dot (dropWhile is_space t);
          t \<leftarrow> lit '','' (opt_lit ''%'' t);
          (l, t) \<leftarrow> many1 is_digit_or_dot (dropWhile is_space t);
          t \<leftarrow> lit '')'' (opt_lit ''%'' t);
          Some ([h, sat, l], t) }"

text \<open>\<^verbatim>\<open>#([0-9a-fA-F]{6})\<close>.\<close>

definition pat_shorten_hex :: "string \<Rightarrow> (string \<times> string) option" where
  "pat_shorten_hex s =
     do { t \<leftarrow> lit ''#'' s;
          if 6 \<le> length t \<and> list_all is_hex (take 6 t) then Some (take 6 t, drop 6 t)
          else None }"

text \<open>\<^verbatim>\<open>rgba\((\d+),\s*(\d+),\s*(\d+),\s*([\d.]+)\)\<close>.\<close>

definition pat_rgba2hex :: "string \<Rightarrow> (string list \<times> string) option" where
  "pat_rgba2hex s =
     do { t \<leftarrow> lit ''rgba('' s;
          (r, t) \<leftarrow> many1 is_digit t;
          t \<leftarrow> lit '','' t;
          (g, t) \<leftarrow> many1 is_digit (dropWhile is_space t);
          t \<leftarrow> lit '','' t;
          (b, t) \<leftarrow> many1 is_digit (dropWhile is_space t);
          t \<leftarrow> lit '','' t;
          (a, t) \<leftarrow> many1 is_digit_or_dot (dropWhile is_space t);
          t \<leftarrow> lit '')'' t;
          Some ([r, g, b, a], t) }"

text \<open>\<^verbatim>\<open>hsla\((\d+),\s*([\d.]+)%?,\s*([\d.]+)%?,\s*([\d.]+)\)\<close>.\<close>

definition pat_hsla2hex :: "string \<Rightarrow> (string list \<times> string) option" where
  "pat_hsla2hex s =
     do { t \<leftarrow> lit ''hsla('' s;
          (h, t) \<leftarrow> many1 is_digit t;
          t \<leftarrow> lit '','' t;
          (sat, t) \<leftarrow> many1 is_digit_or_dot (dropWhile is_space t);
          t \<leftarrow> lit '','' (opt_lit ''%'' t);
          (l, t) \<leftarrow> many1 is_digit_or_dot (dropWhile is_space t);
          t \<leftarrow> lit '','' (opt_lit ''%'' t);
          (a, t) \<leftarrow> many1 is_digit_or_dot (dropWhile is_space t);
          t \<leftarrow> lit '')'' t;
          Some ([h, sat, l, a], t) }"

text \<open>\<^verbatim>\<open>[^\}\{]+\{\}\<close>.\<close>

definition pat_remove_empty_rules :: "string \<Rightarrow> (unit \<times> string) option" where
  "pat_remove_empty_rules s =
     do { (sel, t) \<leftarrow> many1 (\<lambda>c. c \<noteq> CHR ''}'' \<and> c \<noteq> CHR ''{'') s;
          t \<leftarrow> lit ''{}'' t;
          Some ((), t) }"

subsection \<open>The stages that cannot raise\<close>

text \<open>Each definition is the body of the function of the same name in \<open>css.py\<close>.\<close>

definition css_remove_comments :: "string \<Rightarrow> string" where
  "css_remove_comments css = re_sub pat_remove_comments (\<lambda>g. []) css"

definition css_unquote_selectors :: "string \<Rightarrow> string" where
  "css_unquote_selectors css =
     re_sub pat_unquote_selectors (\<lambda>(a, v). a @ ''='' @ v @ '']'') css"

definition css_remove_url_quotes :: "string \<Rightarrow> string" where
  "css_remove_url_quotes css =
     re_sub pat_remove_url_quotes (\<lambda>u. ''url('' @ u @ '')'') css"

definition css_remove_whitespace :: "string \<Rightarrow> string" where
  "css_remove_whitespace css =
     strip
       (py_replace '') and'' '')and''
          (py_replace ''and ('' ''and('' (re_sub pat_remove_whitespace (\<lambda>p. [p]) css)))"

definition css_remove_semicolons :: "string \<Rightarrow> string" where
  "css_remove_semicolons css =
     re_sub pat_remove_semicolons (\<lambda>g. []) (py_replace '';}'' ''}'' css)"

definition css_none_to_zero :: "string \<Rightarrow> string" where
  "css_none_to_zero css = re_sub pat_none_to_zero (\<lambda>p. p @ '':0'') css"

definition css_sub_zero_units :: "string \<Rightarrow> string" where
  "css_sub_zero_units css = re_sub pat_sub_zero_units (\<lambda>(c, z, u). [c, z]) css"

definition css_shorten_floats :: "string \<Rightarrow> string" where
  "css_shorten_floats css = re_sub pat_shorten_floats (\<lambda>(c, ds). c # ''.'' @ ds) css"

definition css_remove_empty_rules :: "string \<Rightarrow> string" where
  "css_remove_empty_rules css = re_sub pat_remove_empty_rules (\<lambda>g. []) css"

definition css_font_weights :: "string \<Rightarrow> string" where
  "css_font_weights css =
     py_replace ''font-weight:bold'' ''font-weight:700''
       (py_replace ''font-weight:normal'' ''font-weight:400'' css)"

text \<open>
  \<open>css_sub_clrs\<close> takes the items of \<open>const.REPLACABLE_CLRS\<close> in the dictionary's
  order; \<open>hexclr\<close> is the value as the table stores it, put in place of \<open>:builtin\<close>.
\<close>

definition css_sub_clrs :: "(string \<times> string) list \<Rightarrow> string \<Rightarrow> string" where
  "css_sub_clrs clr_table css =
     fold (\<lambda>(builtin, hexclr) css. py_replace (CHR '':'' # builtin) hexclr css) clr_table css"

subsection \<open>The stages that call a function on each match\<close>

text \<open>\<open>clr[idx]\<close>: an index past the end raises \<open>IndexError\<close>.\<close>

definition py_index :: "string \<Rightarrow> nat \<Rightarrow> error + char" where
  "py_index s i = (if i < length s then Inr (s ! i) else Inl IndexError)"

definition then_do :: "error + 'a \<Rightarrow> ('a \<Rightarrow> error + 'b) \<Rightarrow> error + 'b" where
  "then_do r f = (case r of Inl e \<Rightarrow> Inl e | Inr x \<Rightarrow> f x)"

text \<open>\<open>all(clr[idx] == clr[idx + 1] for idx in ...)\<close>, which stops at the first pair that differs.\<close>

fun all_doubled :: "string \<Rightarrow> nat list \<Rightarrow> error + bool" where
  "all_doubled clr [] = Inr True"
| "all_doubled clr (idx # idxs) =
     then_do (py_index clr idx) (\<lambda>a.
     then_do (py_index clr (idx + 1)) (\<lambda>b.
       if a = b then all_doubled clr idxs else Inr False))"

definition shorten_clr :: "string \<Rightarrow> error + string" where
  "shorten_clr clr =
     then_do (all_doubled clr [0, 2, 4]) (\<lambda>doubled.
       if doubled
       then then_do (py_index clr 0) (\<lambda>a.
            then_do (py_index clr 2) (\<lambda>b.
            then_do (py_index clr 4) (\<lambda>c. Inr [CHR ''#'', a, b, c])))
       else Inr (CHR ''#'' # clr))"

definition css_shorten_hex :: "string \<Rightarrow> error + string" where
  "css_shorten_hex css = re_sub_fn pat_shorten_hex shorten_clr css"

text \<open>
  The modules \<open>clrs\<close> and \<open>const\<close> are not among the sources: the four converters that
  \<open>css.py\<close> passes to \<open>Pattern.sub\<close> and the colour table are parameters of the model.
  A converter gets the groups of its match and returns the replacement, or raises.
\<close>

record collaborators =
  rgb_to_hex :: "string list \<Rightarrow> error + string"
  hsl_to_hex :: "string list \<Rightarrow> error + string"
  rgba_to_hex :: "string list \<Rightarrow> error + string"
  hsla_to_hex :: "string list \<Rightarrow> error + string"
  REPLACABLE_CLRS :: "(string \<times> string) list"

definition css_rgb2hex :: "collaborators \<Rightarrow> string \<Rightarrow> error + string" where
  "css_rgb2hex env css = re_sub_fn pat_rgb2hex (rgb_to_hex env) css"

definition css_hsl2hex :: "collaborators \<Rightarrow> string \<Rightarrow> error + string" where
  "css_hsl2hex env css = re_sub_fn pat_hsl2hex (hsl_to_hex env) css"

definition css_rgba2hex :: "collaborators \<Rightarrow> string \<Rightarrow> error + string" where
  "css_rgba2hex env css = re_sub_fn pat_rgba2hex (rgba_to_hex env) css"

definition css_hsla2hex :: "collaborators \<Rightarrow> string \<Rightarrow> error + string" where
  "css_hsla2hex env css = re_sub_fn pat_hsla2hex (hsla_to_hex env) css"

subsection \<open>The pipeline\<close>

definition minify_css :: "collaborators \<Rightarrow> string \<Rightarrow> error + string" where
  "minify_css env css =
     (let css = css_remove_comments css;
          css = css_remove_whitespace css;
          css = css_unquote_selectors css;
          css = css_remove_url_quotes css;
          css = css_remove_semicolons css;
          css = css_none_to_zero css;
          css = css_sub_zero_units css;
          css = css_shorten_floats css
      in then_do (css_rgb2hex env css) (\<lambda>css.
         then_do (css_hsl2hex env css) (\<lambda>css.
         then_do (css_shorten_hex (css_sub_clrs (REPLACABLE_CLRS env) css)) (\<lambda>css.
         then_do (css_rgba2hex env css) (\<lambda>css.
         then_do (css_hsla2hex env css) (\<lambda>css.
           Inr (css_font_weights (css_remove_empty_rules css))))))))"

subsection \<open>The collaborators as the spec describes them\<close>

text \<open>
  Modelled from the spec: \<open>int\<close> and \<open>float\<close> applied to a captured group (the module
  \<open>clrs\<close> is not among the sources). The spec speaks of integers and of a float; a
  group that is not a number is an error condition there. Floats are exact rationals
  here.
\<close>

definition dec_val :: "string \<Rightarrow> nat" where
  "dec_val s = foldl (\<lambda>n c. 10 * n + (of_char c - 48)) 0 s"

definition parse_int :: "string \<Rightarrow> error + nat" where
  "parse_int s = (if s \<noteq> [] \<and> list_all is_digit s then Inr (dec_val s) else Inl ValueError)"

definition parse_float :: "string \<Rightarrow> error + rat" where
  "parse_float s =
     (let ip = takeWhile is_digit s
      in case dropWhile is_digit s of
           [] \<Rightarrow> if ip = [] then Inl ValueError else Inr (of_nat (dec_val ip))
         | d # fp \<Rightarrow>
             if d = CHR ''.'' \<and> list_all is_digit fp \<and> (ip \<noteq> [] \<or> fp \<noteq> [])
             then Inr (of_nat (dec_val ip) + of_nat (dec_val fp) / 10 ^ length fp)
             else Inl ValueError)"

text \<open>
  Modelled from the spec: "format each as a 2-digit hexadecimal byte" and "round(a *
  255), clamped to [0,255]" (\<open>clrs\<close> is not among the sources). \<open>py_round\<close> rounds a tie to
  the even neighbour, as Python's \<open>round\<close> does.
\<close>

definition hex_byte :: "nat \<Rightarrow> string" where
  "hex_byte n = [''0123456789abcdef'' ! (n div 16 mod 16), ''0123456789abcdef'' ! (n mod 16)]"

definition py_round :: "rat \<Rightarrow> int" where
  "py_round x =
     (let f = \<lfloor>x\<rfloor>; d = x - of_int f
      in if d < 1 / 2 then f else if 1 / 2 < d then f + 1 else if even f then f else f + 1)"

definition to_byte :: "rat \<Rightarrow> nat" where
  "to_byte x = nat (max 0 (min 255 (py_round (x * 255))))"

definition channel :: "string \<Rightarrow> error + nat" where
  "channel s = then_do (parse_int s) (\<lambda>n. if n \<le> 255 then Inr n else Inl ValueError)"

text \<open>
  Modelled from the spec: \<open>clrs.rgb_to_hex\<close> and \<open>clrs.rgba_to_hex\<close>, which are not among
  the sources: "each of r, g, b is an integer 0-255; format each as a 2-digit
  hexadecimal byte, concatenate as #rrggbb", and for the alpha "a float in [0,1];
  convert to a 2-digit hex byte".
\<close>

definition spec_rgb_to_hex :: "string list \<Rightarrow> error + string" where
  "spec_rgb_to_hex groups =
     (case groups of
        [r, g, b] \<Rightarrow>
          then_do (channel r) (\<lambda>r. then_do (channel g) (\<lambda>g. then_do (channel b) (\<lambda>b.
            Inr (CHR ''#'' # hex_byte r @ hex_byte g @ hex_byte b))))
      | _ \<Rightarrow> Inl ValueError)"

definition spec_rgba_to_hex :: "string list \<Rightarrow> error + string" where
  "spec_rgba_to_hex groups =
     (case groups of
        [r, g, b, a] \<Rightarrow>
          then_do (channel r) (\<lambda>r. then_do (channel g) (\<lambda>g. then_do (channel b) (\<lambda>b.
          then_do (parse_float a) (\<lambda>a.
            Inr (CHR ''#'' # hex_byte r @ hex_byte g @ hex_byte b @ hex_byte (to_byte a))))))
      | _ \<Rightarrow> Inl ValueError)"

text \<open>
  Modelled from the spec: the "standard HSL-to-RGB conversion" of \<open>clrs.hsl_to_hex\<close> and
  \<open>clrs.hsla_to_hex\<close>, which are not among the sources: the hue in degrees, taken modulo
  360, saturation and lightness as percentages, each channel rounded into 0..255.
\<close>

definition hsl_channels :: "nat \<Rightarrow> rat \<Rightarrow> rat \<Rightarrow> string" where
  "hsl_channels h sat l =
     (let hd = h mod 360;
          s1 = sat / 100;
          l1 = l / 100;
          c = (1 - \<bar>2 * l1 - 1\<bar>) * s1;
          x = c * (1 - \<bar>of_nat (hd mod 120) / 60 - 1\<bar>);
          m = l1 - c / 2;
          (r, g, b) =
            (if hd < 60 then (c, x, 0) else if hd < 120 then (x, c, 0)
             else if hd < 180 then (0, c, x) else if hd < 240 then (0, x, c)
             else if hd < 300 then (x, 0, c) else (c, 0, x))
      in hex_byte (to_byte (r + m)) @ hex_byte (to_byte (g + m)) @ hex_byte (to_byte (b + m)))"

definition spec_hsl_to_hex :: "string list \<Rightarrow> error + string" where
  "spec_hsl_to_hex groups =
     (case groups of
        [h, sat, l] \<Rightarrow>
          then_do (parse_int h) (\<lambda>h. then_do (parse_float sat) (\<lambda>sat.
          then_do (parse_float l) (\<lambda>l. Inr (CHR ''#'' # hsl_channels h sat l))))
      | _ \<Rightarrow> Inl ValueError)"

definition spec_hsla_to_hex :: "string list \<Rightarrow> error + string" where
  "spec_hsla_to_hex groups =
     (case groups of
        [h, sat, l, a] \<Rightarrow>
          then_do (parse_int h) (\<lambda>h. then_do (parse_float sat) (\<lambda>sat.
          then_do (parse_float l) (\<lambda>l. then_do (parse_float a) (\<lambda>a.
            Inr (CHR ''#'' # hsl_channels h sat l @ hex_byte (to_byte a))))))
      | _ \<Rightarrow> Inl ValueError)"

text \<open>
  Modelled from the spec: the Replaceable Color Table, "a static mapping from CSS
  named-color keyword to its shortest-equivalent hex string (e.g., white to a 3-digit
  hex)". The module \<open>const\<close> is not among the sources; \<open>white\<close> is the one entry that the
  spec names.
\<close>

definition spec_clr_table :: "(string \<times> string) list" where
  "spec_clr_table = [(''white'', ''#fff'')]"

text \<open>
  Modelled from the spec: the dictionary \<open>const.REPLACABLE_CLRS\<close> that \<open>css_sub_clrs\<close>
  reads. Rule 11 of the spec gives the replacement of \<open>:keyword\<close> as \<open>:hexvalue\<close>, and
  \<open>css.py\<close> puts the stored value in place of \<open>:keyword\<close> as it is, without adding a
  colon; so the value stored for a keyword is modelled as the colon followed by the
  table's hex string.
\<close>

definition spec_replacable_clrs :: "(string \<times> string) list" where
  "spec_replacable_clrs =
     map (\<lambda>(keyword, hexvalue). (keyword, CHR '':'' # hexvalue)) spec_clr_table"

definition spec_collaborators :: collaborators where
  "spec_collaborators =
     \<lparr> rgb_to_hex = spec_rgb_to_hex, hsl_to_hex = spec_hsl_to_hex,
       rgba_to_hex = spec_rgba_to_hex, hsla_to_hex = spec_hsla_to_hex,
       REPLACABLE_CLRS = spec_replacable_clrs \<rparr>"

subsection \<open>Predicates of the statements\<close>

text \<open>The pattern matches at no position of the text.\<close>

fun no_match :: "(string \<Rightarrow> ('g \<times> string) option) \<Rightarrow> string \<Rightarrow> bool" where
  "no_match pat [] = True"
| "no_match pat (c # cs) = (pat (c # cs) = None \<and> no_match pat cs)"

text \<open>Every keyword of the colour table starts with a letter, as a CSS colour name does.\<close>

definition clr_keys_alpha :: "(string \<times> string) list \<Rightarrow> bool" where
  "clr_keys_alpha clr_table = list_all (\<lambda>(k, h). k \<noteq> [] \<and> is_alpha (hd k)) clr_table"

text \<open>No colon of the text is followed by a letter.\<close>

fun no_colon_alpha :: "string \<Rightarrow> bool" where
  "no_colon_alpha (a # b # cs) = (\<not> (a = CHR '':'' \<and> is_alpha b) \<and> no_colon_alpha (b # cs))"
| "no_colon_alpha cs = True"

text \<open>
  What the length bound needs of the collaborators: a converter's result is no longer
  than the shortest notation holding its groups (\<open>rgb(,,)\<close> and \<open>hsl(,,)\<close> are 7
  characters around the groups, \<open>rgba(,,,)\<close> and \<open>hsla(,,,)\<close> are 9), and a value of the
  colour table is no longer than \<open>:keyword\<close>.
\<close>

definition collaborators_shorten :: "collaborators \<Rightarrow> bool" where
  "collaborators_shorten env =
     ((\<forall>g h. rgb_to_hex env g = Inr h \<longrightarrow> length h \<le> 7 + length (concat g)) \<and>
      (\<forall>g h. hsl_to_hex env g = Inr h \<longrightarrow> length h \<le> 7 + length (concat g)) \<and>
      (\<forall>g h. rgba_to_hex env g = Inr h \<longrightarrow> length h \<le> 9 + length (concat g)) \<and>
      (\<forall>g h. hsla_to_hex env g = Inr h \<longrightarrow> length h \<le> 9 + length (concat g)) \<and>
      list_all (\<lambda>(k, h). length h \<le> Suc (length k)) (REPLACABLE_CLRS env))"








text \<open>No match of the pattern starts with a digit or a dot.\<close>

definition inert :: "(string \<Rightarrow> ('g \<times> string) option) \<Rightarrow> bool" where
  "inert pat = (\<forall>c t. is_digit_or_dot c \<longrightarrow> pat (c # t) = None)"





section \<open>Properties\<close>

subsection \<open>A stage whose pattern does not occur\<close>

lemma re_sub_no_match: "no_match pat s \<Longrightarrow> re_sub pat repl s = s"
  by (induction s) auto

lemma re_sub_fn_no_match: "no_match pat s \<Longrightarrow> re_sub_fn pat fn s = Inr s"
  by (induction s) auto

lemma replace_ne_no_occ: "\<not> sublist old s \<Longrightarrow> replace_ne old new s = s"
  by (induction s) (auto simp: sublist_Cons_right)

lemma py_replace_no_occ: "\<not> sublist old s \<Longrightarrow> py_replace old new s = s"
  by (cases "old = []") (auto simp: py_replace_def replace_ne_no_occ)

lemma strip_id: "(s \<noteq> [] \<longrightarrow> \<not> is_space (hd s) \<and> \<not> is_space (last s)) \<Longrightarrow> strip s = s"
proof (cases s)
  case Nil
  then show ?thesis by (simp add: strip_def)
next
  case (Cons c cs)
  assume a: "s \<noteq> [] \<longrightarrow> \<not> is_space (hd s) \<and> \<not> is_space (last s)"
  then have 1: "dropWhile is_space s = s" by (simp add: Cons)
  have "rev s = last s # rev (butlast s)"
    using Cons by (metis append_butlast_last_id list.distinct(1) rev.simps(2) rev_rev_ident rev_append rev_singleton_conv append_Cons append_Nil)
  then have "dropWhile is_space (rev s) = rev s" using a Cons by simp
  then show ?thesis using 1 by (simp add: strip_def)
qed

lemma css_sub_clrs_no_occ:
  "list_all (\<lambda>(k, h). \<not> sublist (CHR '':'' # k) s) clr_table \<Longrightarrow> css_sub_clrs clr_table s = s"
  by (induction clr_table) (auto simp: css_sub_clrs_def py_replace_no_occ)

lemma no_colon_alpha_replace:
  "is_alpha a \<Longrightarrow> no_colon_alpha s \<Longrightarrow> replace_ne (CHR '':'' # a # k) new s = s"
  by (induction s rule: no_colon_alpha.induct) auto

lemma css_sub_clrs_no_colon_alpha:
  "clr_keys_alpha clr_table \<Longrightarrow> no_colon_alpha s \<Longrightarrow> css_sub_clrs clr_table s = s"
proof (induction clr_table)
  case Nil
  then show ?case by (simp add: css_sub_clrs_def)
next
  case (Cons e clr_table)
  obtain k h where e: "e = (k, h)" by (cases e)
  from Cons.prems e obtain a k' where k: "k = a # k'" "is_alpha a"
    by (cases k) (auto simp: clr_keys_alpha_def)
  have "py_replace (CHR '':'' # k) h s = s"
    using k Cons.prems(2) by (simp add: py_replace_def no_colon_alpha_replace)
  moreover have "css_sub_clrs clr_table s = s"
    using Cons by (simp add: clr_keys_alpha_def)
  ultimately show ?case
    by (simp add: css_sub_clrs_def e)
qed

text \<open>
  A text in which, after the first eight stages, no colour notation and no colour keyword
  occurs goes through the colour stages unchanged, whatever the converters are.
\<close>

lemma minify_css_no_colour:
  assumes "clr_keys_alpha (REPLACABLE_CLRS env)"
    and "css_shorten_floats (css_sub_zero_units (css_none_to_zero (css_remove_semicolons
           (css_remove_url_quotes (css_unquote_selectors (css_remove_whitespace
             (css_remove_comments css))))))) = s"
    and "no_match pat_rgb2hex s" and "no_match pat_hsl2hex s" and "no_colon_alpha s"
    and "css_shorten_hex s = Inr t"
    and "no_match pat_rgba2hex t" and "no_match pat_hsla2hex t"
  shows "minify_css env css = Inr (css_font_weights (css_remove_empty_rules t))"
  using assms
  by (simp add: minify_css_def then_do_def css_rgb2hex_def css_hsl2hex_def css_rgba2hex_def
      css_hsla2hex_def re_sub_fn_no_match css_sub_clrs_no_colon_alpha)

lemma spec_clr_table_alpha: "clr_keys_alpha (REPLACABLE_CLRS spec_collaborators)"
  by code_simp

subsection \<open>The margin example\<close>

text \<open>
  Claim C2 says that \<open>minify_css(".x { margin: 0.500em; }")\<close> contains \<open>.5\<close>, has no \<open>em\<close>
  unit left and that the margin's value becomes \<open>.5\<close>. The code returns
  \<open>.x{margin:.500em}\<close>: the unit and the trailing zeros stay.
\<close>

theorem minify_css_margin_counterexample:
  "minify_css spec_collaborators ''.x { margin: 0.500em; }'' = Inr ''.x{margin:.500em}''
   \<and> sublist ''em'' ''.x{margin:.500em}''
   \<and> ''.x{margin:.500em}'' \<noteq> ''.x{margin:.5}''"
  by code_simp

text \<open>
  Claim C2, amended: for every colour table whose keywords start with a letter and
  whatever the converters are, \<open>minify_css(".x { margin: 0.500em; }")\<close> returns
  \<open>.x{margin:.500em}\<close>. The result contains \<open>.5\<close>; only the whitespace, the last
  semicolon and the zero before the point are removed.
\<close>

theorem minify_css_margin:
  assumes "clr_keys_alpha (REPLACABLE_CLRS env)"
  shows "minify_css env ''.x { margin: 0.500em; }'' = Inr ''.x{margin:.500em}''
         \<and> sublist ''.5'' ''.x{margin:.500em}''"
proof -
  have a: "css_shorten_floats (css_sub_zero_units (css_none_to_zero (css_remove_semicolons
           (css_remove_url_quotes (css_unquote_selectors (css_remove_whitespace
             (css_remove_comments ''.x { margin: 0.500em; }''))))))) = ''.x{margin:.500em}''"
    by code_simp
  have b: "no_match pat_rgb2hex ''.x{margin:.500em}''" by code_simp
  have c: "no_match pat_hsl2hex ''.x{margin:.500em}''" by code_simp
  have d: "no_colon_alpha ''.x{margin:.500em}''" by code_simp
  have e: "css_shorten_hex ''.x{margin:.500em}'' = Inr ''.x{margin:.500em}''" by code_simp
  have f: "no_match pat_rgba2hex ''.x{margin:.500em}''" by code_simp
  have g: "no_match pat_hsla2hex ''.x{margin:.500em}''" by code_simp
  have h: "css_font_weights (css_remove_empty_rules ''.x{margin:.500em}'') = ''.x{margin:.500em}''"
    by code_simp
  have i: "sublist ''.5'' ''.x{margin:.500em}''" by code_simp
  show ?thesis
    using minify_css_no_colour [OF assms a b c d e f g] h i by simp
qed

theorem minify_css_margin_witness:
  "clr_keys_alpha (REPLACABLE_CLRS spec_collaborators)
   \<and> minify_css spec_collaborators ''.x { margin: 0.500em; }'' = Inr ''.x{margin:.500em}''
   \<and> sublist ''.5'' ''.x{margin:.500em}''"
  using spec_clr_table_alpha minify_css_margin [OF spec_clr_table_alpha] by simp

subsection \<open>Redundant semicolons\<close>

text \<open>The output of \<open>css_remove_semicolons\<close> never holds two semicolons in a row.\<close>

lemma takeWhile_semicolon_nonempty:
  "takeWhile (\<lambda>c. c = CHR '';'') x \<noteq> [] \<Longrightarrow> \<exists>t. x = CHR '';'' # t"
  by (cases x) (auto split: if_splits)

lemma pat_remove_semicolons_Some:
  "pat_remove_semicolons s = Some (g, r) \<Longrightarrow>
     (\<exists>t. s = CHR '';'' # CHR '';'' # t) \<and> r = dropWhile (\<lambda>c. c = CHR '';'') s"
  by (cases s) (auto simp: pat_remove_semicolons_def lit_def many1_def
                     split: Option.bind_splits if_splits list.splits
                     dest: takeWhile_semicolon_nonempty)

lemma pat_remove_semicolons_None:
  "pat_remove_semicolons (CHR '';'' # CHR '';'' # t) \<noteq> None"
  by (simp add: pat_remove_semicolons_def lit_def many1_def)

lemma collapse_semicolons_head:
  "\<not> sublist '';;'' (re_sub pat_remove_semicolons (\<lambda>g. []) s)
   \<and> (\<forall>t. re_sub pat_remove_semicolons (\<lambda>g. []) s = CHR '';'' # t \<longrightarrow>
          (\<exists>u. s = CHR '';'' # u))"
proof (induction s rule: length_induct)
  case (1 s)
  let ?f = "re_sub pat_remove_semicolons (\<lambda>g. [])"
  show ?case
  proof (cases s)
    case Nil
    then show ?thesis by simp
  next
    case (Cons c cs)
    show ?thesis
    proof (cases "pat_remove_semicolons (c # cs)")
      case None
      have ih: "\<not> sublist '';;'' (?f cs)" "\<And>t. ?f cs = CHR '';'' # t \<Longrightarrow> \<exists>u. cs = CHR '';'' # u"
        using 1 Cons by auto
      have fs: "?f s = c # ?f cs" using None by (simp add: Cons)
      have "\<not> prefix '';;'' (c # ?f cs)"
      proof
        assume "prefix '';;'' (c # ?f cs)"
        then obtain t where "c = CHR '';''" "?f cs = CHR '';'' # t"
          by (cases "?f cs") auto
        with ih(2) obtain u where "c # cs = CHR '';'' # CHR '';'' # u" by blast
        with None pat_remove_semicolons_None show False by simp
      qed
      with ih(1) fs show ?thesis by (auto simp: sublist_Cons_right Cons)
    next
      case (Some a)
      obtain g r where a: "a = (g, r)" by (cases a)
      from pat_remove_semicolons_Some [OF Some [unfolded a]]
      obtain t where s2: "c # cs = CHR '';'' # CHR '';'' # t"
        and r: "r = dropWhile (\<lambda>c. c = CHR '';'') (c # cs)" by blast
      have lr: "length r \<le> length cs"
        using r s2 length_dropWhile_le [of "\<lambda>c. c = CHR '';''" t] by simp
      then have fs: "?f s = ?f r" using Some a by (simp add: Cons)
      have "length r < length s" using lr by (simp add: Cons)
      then have ih: "\<not> sublist '';;'' (?f r)" "\<And>t. ?f r = CHR '';'' # t \<Longrightarrow> \<exists>u. r = CHR '';'' # u"
        using 1 by auto
      have "r = [] \<or> hd r \<noteq> CHR '';''"
        unfolding r by (metis (mono_tags, lifting) hd_dropWhile)
      then have "\<And>t. ?f r \<noteq> CHR '';'' # t" using ih(2) by fastforce
      with ih(1) fs s2 show ?thesis by (auto simp: Cons)
    qed
  qed
qed

lemma css_remove_semicolons_no_double: "\<not> sublist '';;'' (css_remove_semicolons s)"
  using collapse_semicolons_head by (simp add: css_remove_semicolons_def)

text \<open>
  Claim C3 says that the output of \<open>css_remove_semicolons\<close> never contains \<open>;}\<close>. The
  function replaces \<open>;}\<close> before it collapses the runs of semicolons, so two semicolons
  before a closing brace leave one: on \<open>a{b:c;;}\<close> it returns \<open>a{b:c;}\<close>.
\<close>

theorem css_remove_semicolons_two_before_brace:
  "css_remove_semicolons ''a{b:c;;}'' = ''a{b:c;}'' \<and> sublist '';}'' ''a{b:c;}''"
  by code_simp

subsection \<open>Quoted strings\<close>

text \<open>
  Claim C10: the rewrite rules also apply inside a quoted CSS string. On
  \<open>a{content:";}"}\<close> the semicolon stage deletes the semicolon inside the quotes, and
  \<open>minify_css\<close> returns \<open>a{content:"}"}\<close> (for every colour table whose keywords
  start with a letter, whatever the converters are).
\<close>

theorem minify_css_inside_quotes:
  assumes "clr_keys_alpha (REPLACABLE_CLRS env)"
  shows "minify_css env ''a{content:\";}\"}'' = Inr ''a{content:\"}\"}''
         \<and> css_remove_semicolons ''a{content:\";}\"}'' = ''a{content:\"}\"}''"
proof -
  have a: "css_shorten_floats (css_sub_zero_units (css_none_to_zero (css_remove_semicolons
           (css_remove_url_quotes (css_unquote_selectors (css_remove_whitespace
             (css_remove_comments ''a{content:\";}\"}''))))))) = ''a{content:\"}\"}''"
    by code_simp
  have b: "no_match pat_rgb2hex ''a{content:\"}\"}''" by code_simp
  have c: "no_match pat_hsl2hex ''a{content:\"}\"}''" by code_simp
  have d: "no_colon_alpha ''a{content:\"}\"}''" by code_simp
  have e: "css_shorten_hex ''a{content:\"}\"}'' = Inr ''a{content:\"}\"}''" by code_simp
  have f: "no_match pat_rgba2hex ''a{content:\"}\"}''" by code_simp
  have g: "no_match pat_hsla2hex ''a{content:\"}\"}''" by code_simp
  have h: "css_font_weights (css_remove_empty_rules ''a{content:\"}\"}'') = ''a{content:\"}\"}''"
    by code_simp
  have i: "css_remove_semicolons ''a{content:\";}\"}'' = ''a{content:\"}\"}''" by code_simp
  show ?thesis
    using minify_css_no_colour [OF assms a b c d e f g] h i by simp
qed

theorem minify_css_inside_quotes_witness:
  "clr_keys_alpha (REPLACABLE_CLRS spec_collaborators)
   \<and> minify_css spec_collaborators ''a{content:\";}\"}'' = Inr ''a{content:\"}\"}''
   \<and> css_remove_semicolons ''a{content:\";}\"}'' = ''a{content:\"}\"}''"
  using spec_clr_table_alpha minify_css_inside_quotes [OF spec_clr_table_alpha] by simp

subsection \<open>No stage lengthens the text\<close>

lemma lit_SomeD: "lit p s = Some t \<Longrightarrow> s = p @ t"
  by (auto simp: lit_def prefix_def split: if_splits)

lemma many1_SomeD: "many1 P s = Some (r, t) \<Longrightarrow> s = r @ t \<and> r \<noteq> []"
  by (auto simp: many1_def split: if_splits)

lemma opt_lit_length: "length (opt_lit p s) \<le> length s"
  by (auto simp: opt_lit_def dest: lit_SomeD split: option.splits)

lemma after_first_length: "after_first p s = Some t \<Longrightarrow> length t \<le> length s"
  by (induction s) (auto split: if_splits)

lemma first_alt_SomeD: "first_alt us s = Some (u, t) \<Longrightarrow> s = u @ t \<and> u \<in> set us"
  by (induction us) (auto simp: prefix_def split: if_splits)

lemma re_sub_length:
  assumes "\<And>t g rest. pat t = Some (g, rest) \<Longrightarrow> length (repl g) + length rest \<le> length t"
  shows "length (re_sub pat repl s) \<le> length s"
proof (induction s rule: length_induct)
  case (1 s)
  show ?case
  proof (cases s)
    case Nil
    then show ?thesis by simp
  next
    case (Cons c cs)
    show ?thesis
    proof (cases "pat (c # cs)")
      case None
      with 1 Cons show ?thesis by simp
    next
      case (Some a)
      obtain g rest where a: "a = (g, rest)" by (cases a)
      define nxt where "nxt = (if length rest \<le> length cs then rest else cs)"
      have b: "length (repl g) + length rest \<le> Suc (length cs)"
        using assms [of "c # cs" g rest] Some a by simp
      have "length nxt < length s" by (simp add: nxt_def Cons)
      then have "length (re_sub pat repl nxt) \<le> length nxt" using 1 by blast
      moreover have "length (repl g) + length nxt \<le> Suc (length cs)"
        using b by (simp add: nxt_def)
      moreover have "re_sub pat repl s = repl g @ re_sub pat repl nxt"
        by (simp add: Cons Some a nxt_def)
      ultimately show ?thesis by (simp add: Cons)
    qed
  qed
qed

lemma re_sub_fn_length:
  assumes "\<And>t g rest h. pat t = Some (g, rest) \<Longrightarrow> fn g = Inr h \<Longrightarrow>
             length h + length rest \<le> length t"
  shows "re_sub_fn pat fn s = Inr out \<Longrightarrow> length out \<le> length s"
proof (induction s arbitrary: out rule: length_induct)
  case (1 s)
  show ?case
  proof (cases s)
    case Nil
    with 1 show ?thesis by simp
  next
    case (Cons c cs)
    show ?thesis
    proof (cases "pat (c # cs)")
      case None
      with 1 Cons show ?thesis by (auto split: sum.splits)
    next
      case (Some a)
      obtain g rest where a: "a = (g, rest)" by (cases a)
      define nxt where "nxt = (if length rest \<le> length cs then rest else cs)"
      from 1(2) obtain h o2 where h: "fn g = Inr h" "re_sub_fn pat fn nxt = Inr o2" "out = h @ o2"
        by (auto simp: Cons Some a nxt_def split: sum.splits)
      have b: "length h + length rest \<le> Suc (length cs)"
        using assms [of "c # cs" g rest h] Some a h by simp
      have "length nxt < length s" by (simp add: nxt_def Cons)
      then have "length o2 \<le> length nxt" using 1(1) h by blast
      moreover have "length h + length nxt \<le> Suc (length cs)"
        using b by (simp add: nxt_def)
      ultimately show ?thesis by (simp add: Cons h)
    qed
  qed
qed

lemma replace_ne_length:
  "length new \<le> length old \<Longrightarrow> length (replace_ne old new s) \<le> length s"
proof (induction s rule: length_induct)
  case (1 s)
  show ?case
  proof (cases s)
    case Nil
    then show ?thesis by simp
  next
    case (Cons c cs)
    show ?thesis
    proof (cases "prefix old (c # cs)")
      case False
      with 1 Cons show ?thesis by simp
    next
      case True
      then have l: "length old \<le> Suc (length cs)" by (auto dest: prefix_length_le)
      have "length (drop (length old - 1) cs) < length s" by (simp add: Cons)
      then have "length (replace_ne old new (drop (length old - 1) cs)) \<le> length cs - (length old - 1)"
        using 1 by (metis length_drop)
      then show ?thesis using True 1(2) l by (simp add: Cons)
    qed
  qed
qed

lemma py_replace_length:
  "old \<noteq> [] \<Longrightarrow> length new \<le> length old \<Longrightarrow> length (py_replace old new s) \<le> length s"
  by (simp add: py_replace_def replace_ne_length)

lemma strip_length: "length (strip s) \<le> length s"
  unfolding strip_def
  by (metis length_dropWhile_le length_rev le_trans)


lemma dropWhile_len: "length (dropWhile P s) \<le> length s"
  by (rule length_dropWhile_le)

lemma many1_length: "many1 P s = Some (r, t) \<Longrightarrow> length r + length t = length s \<and> 0 < length r"
  by (drule many1_SomeD) auto

lemma many1_dw_length:
  "many1 P (dropWhile Q s) = Some (r, t) \<Longrightarrow> length r + length t \<le> length s \<and> 0 < length r"
  using length_dropWhile_le [of Q s] by (auto dest!: many1_length)

lemma lit_length: "lit p s = Some t \<Longrightarrow> length s = length p + length t"
  by (drule lit_SomeD) simp

lemma lit_opt_length: "lit p (opt_lit q s) = Some t \<Longrightarrow> length p + length t \<le> length s"
  using opt_lit_length [of q s] by (auto dest!: lit_length)

lemma css_remove_comments_length: "length (css_remove_comments s) \<le> length s"
  unfolding css_remove_comments_def
  by (rule re_sub_length)
     (auto simp: pat_remove_comments_def split: Option.bind_splits
           dest!: lit_length after_first_length)

lemma css_unquote_selectors_length: "length (css_unquote_selectors s) \<le> length s"
  unfolding css_unquote_selectors_def
  by (rule re_sub_length)
     (auto simp: pat_unquote_selectors_def split: Option.bind_splits
           dest!: lit_length many1_length)

lemma css_remove_url_quotes_length: "length (css_remove_url_quotes s) \<le> length s"
proof -
  have "length (''url('' @ u @ '')'') + length rest \<le> length t"
    if "pat_remove_url_quotes t = Some (u, rest)" for t u rest
  proof -
    from that obtain q t1 where t: "t = ''url('' @ q # t1"
      and r: "takeWhile (\<lambda>c. c \<noteq> CHR '')'') t1 \<noteq> []"
      and u: "u = butlast (takeWhile (\<lambda>c. c \<noteq> CHR '')'') t1)"
      and l: "dropWhile (\<lambda>c. c \<noteq> CHR '')'') t1 = CHR '')'' # rest"
      by (auto simp: pat_remove_url_quotes_def Let_def
               split: Option.bind_splits list.splits if_splits dest!: lit_SomeD)
    have "length (takeWhile (\<lambda>c. c \<noteq> CHR '')'') t1) + length (dropWhile (\<lambda>c. c \<noteq> CHR '')'') t1)
          = length t1"
      by (metis length_append takeWhile_dropWhile_id)
    then show ?thesis using t r u l by (simp add: length_butlast)
  qed
  then show ?thesis
    unfolding css_remove_url_quotes_def by (intro re_sub_length) auto
qed

lemma pat_remove_whitespace_length:
  "pat_remove_whitespace t = Some (p, rest) \<Longrightarrow> Suc (length rest) \<le> length t"
proof -
  assume a: "pat_remove_whitespace t = Some (p, rest)"
  then obtain t1 where d: "dropWhile is_space t = p # t1" and r: "rest = dropWhile is_space t1"
    by (auto simp: pat_remove_whitespace_def split: list.splits if_splits)
  have "length (p # t1) \<le> length t" using length_dropWhile_le [of is_space t] d by simp
  moreover have "length rest \<le> length t1" using r by (simp add: length_dropWhile_le)
  ultimately show ?thesis by simp
qed

lemma css_remove_whitespace_length: "length (css_remove_whitespace s) \<le> length s"
proof -
  have "length (re_sub pat_remove_whitespace (\<lambda>p. [p]) s) \<le> length s"
    by (rule re_sub_length) (auto dest: pat_remove_whitespace_length)
  moreover have "length (py_replace ''and ('' ''and('' x) \<le> length x" for x
    by (rule py_replace_length) auto
  moreover have "length (py_replace '') and'' '')and'' x) \<le> length x" for x
    by (rule py_replace_length) auto
  ultimately show ?thesis
    unfolding css_remove_whitespace_def
    by (meson strip_length le_trans)
qed

lemma css_remove_semicolons_length: "length (css_remove_semicolons s) \<le> length s"
proof -
  have "length (re_sub pat_remove_semicolons (\<lambda>g. []) x) \<le> length x" for x
    by (rule re_sub_length)
       (auto simp: pat_remove_semicolons_def split: Option.bind_splits
             dest!: lit_length many1_length)
  moreover have "length (py_replace '';}'' ''}'' s) \<le> length s"
    by (rule py_replace_length) auto
  ultimately show ?thesis
    unfolding css_remove_semicolons_def by (meson le_trans)
qed

lemma css_none_to_zero_length: "length (css_none_to_zero s) \<le> length s"
  unfolding css_none_to_zero_def
  by (rule re_sub_length)
     (auto simp: pat_none_to_zero_def simp del: first_alt.simps split: Option.bind_splits
           dest!: lit_length first_alt_SomeD)

lemma css_sub_zero_units_length: "length (css_sub_zero_units s) \<le> length s"
  unfolding css_sub_zero_units_def
  by (rule re_sub_length)
     (auto simp: pat_sub_zero_units_def split: Option.bind_splits list.splits if_splits
           dest!: first_alt_SomeD)

lemma css_shorten_floats_length: "length (css_shorten_floats s) \<le> length s"
  unfolding css_shorten_floats_def
  by (rule re_sub_length)
     (auto simp: pat_shorten_floats_def split: Option.bind_splits list.splits if_splits
           dest!: lit_length many1_length)

lemma css_remove_empty_rules_length: "length (css_remove_empty_rules s) \<le> length s"
  unfolding css_remove_empty_rules_def
  by (rule re_sub_length)
     (auto simp: pat_remove_empty_rules_def split: Option.bind_splits
           dest!: lit_length many1_length)

lemma css_font_weights_length: "length (css_font_weights s) \<le> length s"
proof -
  have "length (py_replace ''font-weight:normal'' ''font-weight:400'' s) \<le> length s"
    by (rule py_replace_length) auto
  moreover have "length (py_replace ''font-weight:bold'' ''font-weight:700'' x) \<le> length x" for x
    by (rule py_replace_length) auto
  ultimately show ?thesis
    unfolding css_font_weights_def by (meson le_trans)
qed


lemma dropWhile_lengthE:
  assumes "n = length (dropWhile P s)" obtains k where "length s = k + n"
  using assms length_dropWhile_le [of P s] by (metis le_add_diff_inverse2)

lemma opt_lit_lengthE:
  assumes "length (opt_lit p s) = n" obtains k where "length s = k + n"
  using assms opt_lit_length [of p s] by (metis le_add_diff_inverse2)

lemma pat_rgb2hex_length:
  "pat_rgb2hex t = Some (g, rest) \<Longrightarrow> 7 + length (concat g) + length rest \<le> length t"
  by (auto simp: pat_rgb2hex_def split: Option.bind_splits
           dest!: many1_length lit_length elim!: dropWhile_lengthE)

lemma pat_hsl2hex_length:
  "pat_hsl2hex t = Some (g, rest) \<Longrightarrow> 7 + length (concat g) + length rest \<le> length t"
  by (auto simp: pat_hsl2hex_def split: Option.bind_splits
           dest!: many1_length lit_length elim!: dropWhile_lengthE opt_lit_lengthE)

lemma pat_rgba2hex_length:
  "pat_rgba2hex t = Some (g, rest) \<Longrightarrow> 9 + length (concat g) + length rest \<le> length t"
  by (auto simp: pat_rgba2hex_def split: Option.bind_splits
           dest!: many1_length lit_length elim!: dropWhile_lengthE)

lemma pat_hsla2hex_length:
  "pat_hsla2hex t = Some (g, rest) \<Longrightarrow> 9 + length (concat g) + length rest \<le> length t"
  by (auto simp: pat_hsla2hex_def split: Option.bind_splits
           dest!: many1_length lit_length elim!: dropWhile_lengthE opt_lit_lengthE)

lemma pat_shorten_hex_SomeD:
  "pat_shorten_hex t = Some (g, rest) \<Longrightarrow> t = CHR ''#'' # g @ rest \<and> length g = 6 \<and> list_all is_hex g"
  by (auto simp: pat_shorten_hex_def split: Option.bind_splits if_splits dest!: lit_SomeD)

lemma shorten_clr_six:
  "length g = 6 \<Longrightarrow> \<exists>h. shorten_clr g = Inr h \<and> length h \<le> 7"
  by (auto simp: shorten_clr_def then_do_def py_index_def)

lemma css_shorten_hex_length: "css_shorten_hex s = Inr out \<Longrightarrow> length out \<le> length s"
  unfolding css_shorten_hex_def
proof (erule re_sub_fn_length [rotated])
  fix t g rest h
  assume "pat_shorten_hex t = Some (g, rest)" "shorten_clr g = Inr h"
  then show "length h + length rest \<le> length t"
    using shorten_clr_six [of g] by (auto dest!: pat_shorten_hex_SomeD)
qed

lemma css_sub_clrs_length:
  "list_all (\<lambda>(k, h). length h \<le> Suc (length k)) clr_table \<Longrightarrow>
   length (css_sub_clrs clr_table s) \<le> length s"
proof (induction clr_table arbitrary: s)
  case Nil
  then show ?case by (simp add: css_sub_clrs_def)
next
  case (Cons e clr_table)
  obtain k h where e: "e = (k, h)" by (cases e)
  have "length (py_replace (CHR '':'' # k) h s) \<le> length s"
    using Cons.prems e by (intro py_replace_length) auto
  moreover have "length (css_sub_clrs clr_table (py_replace (CHR '':'' # k) h s))
                 \<le> length (py_replace (CHR '':'' # k) h s)"
    using Cons by simp
  ultimately show ?case by (simp add: css_sub_clrs_def e)
qed

lemma minify_css_length:
  assumes "collaborators_shorten env" and "minify_css env css = Inr out"
  shows "length out \<le> length css"
proof -
  define s8 where "s8 = css_shorten_floats (css_sub_zero_units (css_none_to_zero
    (css_remove_semicolons (css_remove_url_quotes (css_unquote_selectors
      (css_remove_whitespace (css_remove_comments css)))))))"
  from assms(2) obtain s9 s10 s12 s13 s14 where
        s9: "css_rgb2hex env s8 = Inr s9"
    and s10: "css_hsl2hex env s9 = Inr s10"
    and s12: "css_shorten_hex (css_sub_clrs (REPLACABLE_CLRS env) s10) = Inr s12"
    and s13: "css_rgba2hex env s12 = Inr s13"
    and s14: "css_hsla2hex env s13 = Inr s14"
    and out: "out = css_font_weights (css_remove_empty_rules s14)"
    by (auto simp: minify_css_def s8_def then_do_def split: sum.splits)
  have l8: "length s8 \<le> length css"
    unfolding s8_def
    by (meson css_remove_comments_length css_remove_whitespace_length
        css_unquote_selectors_length css_remove_url_quotes_length css_remove_semicolons_length
        css_none_to_zero_length css_sub_zero_units_length css_shorten_floats_length le_trans)
  have l9: "length s9 \<le> length s8"
    using s9 assms(1) unfolding css_rgb2hex_def collaborators_shorten_def
    by (elim re_sub_fn_length [rotated]) (fastforce dest!: pat_rgb2hex_length)
  have l10: "length s10 \<le> length s9"
    using s10 assms(1) unfolding css_hsl2hex_def collaborators_shorten_def
    by (elim re_sub_fn_length [rotated]) (fastforce dest!: pat_hsl2hex_length)
  have l11: "length (css_sub_clrs (REPLACABLE_CLRS env) s10) \<le> length s10"
    using assms(1) by (simp add: collaborators_shorten_def css_sub_clrs_length)
  have l12: "length s12 \<le> length (css_sub_clrs (REPLACABLE_CLRS env) s10)"
    using s12 by (rule css_shorten_hex_length)
  have l13: "length s13 \<le> length s12"
    using s13 assms(1) unfolding css_rgba2hex_def collaborators_shorten_def
    by (elim re_sub_fn_length [rotated]) (fastforce dest!: pat_rgba2hex_length)
  have l14: "length s14 \<le> length s13"
    using s14 assms(1) unfolding css_hsla2hex_def collaborators_shorten_def
    by (elim re_sub_fn_length [rotated]) (fastforce dest!: pat_hsla2hex_length)
  have "length out \<le> length s14"
    unfolding out by (meson css_font_weights_length css_remove_empty_rules_length le_trans)
  with l8 l9 l10 l11 l12 l13 l14 show ?thesis by linarith
qed


lemma hex_byte_length: "length (hex_byte n) = 2"
  by (simp add: hex_byte_def)

lemma hsl_channels_length: "length (hsl_channels h sat l) = 6"
  by (simp add: hsl_channels_def Let_def hex_byte_length split: prod.splits)

lemma then_do_InrD: "then_do r f = Inr y \<Longrightarrow> \<exists>x. r = Inr x \<and> f x = Inr y"
  by (cases r) (auto simp: then_do_def)

lemma spec_rgb_to_hex_length: "spec_rgb_to_hex g = Inr h \<Longrightarrow> length h = 7"
  by (auto simp: spec_rgb_to_hex_def hex_byte_length split: list.splits dest!: then_do_InrD)

lemma spec_rgba_to_hex_length: "spec_rgba_to_hex g = Inr h \<Longrightarrow> length h = 9"
  by (auto simp: spec_rgba_to_hex_def hex_byte_length split: list.splits dest!: then_do_InrD)

lemma spec_hsl_to_hex_length: "spec_hsl_to_hex g = Inr h \<Longrightarrow> length h = 7"
  by (auto simp: spec_hsl_to_hex_def hsl_channels_length split: list.splits dest!: then_do_InrD)

lemma spec_hsla_to_hex_length: "spec_hsla_to_hex g = Inr h \<Longrightarrow> length h = 9"
  by (auto simp: spec_hsla_to_hex_def hsl_channels_length hex_byte_length
           split: list.splits dest!: then_do_InrD)

lemma spec_collaborators_shorten: "collaborators_shorten spec_collaborators"
  by (auto simp: collaborators_shorten_def spec_collaborators_def spec_replacable_clrs_def
           spec_clr_table_def
           dest!: spec_rgb_to_hex_length spec_rgba_to_hex_length spec_hsl_to_hex_length
                  spec_hsla_to_hex_length)

text \<open>
  Every pattern consumes at least one character, so \<open>re_sub\<close> and \<open>re_sub_fn\<close> always
  go on with the text that the pattern left.
\<close>

lemma pat_remove_url_quotes_consumes:
  assumes "pat_remove_url_quotes t = Some (u, rest)"
  shows "length rest < length t"
proof -
  from assms obtain q t1 where t: "t = ''url('' @ q # t1"
    and l: "dropWhile (\<lambda>c. c \<noteq> CHR '')'') t1 = CHR '')'' # rest"
    by (auto simp: pat_remove_url_quotes_def Let_def
             split: Option.bind_splits list.splits if_splits dest!: lit_SomeD)
  have "length (CHR '')'' # rest) \<le> length t1"
    using length_dropWhile_le [of "\<lambda>c. c \<noteq> CHR '')''" t1] l by simp
  then show ?thesis by (simp add: t)
qed

lemma pat_consumes:
  "pat_remove_comments s = Some (g1, rest) \<Longrightarrow> length rest < length s"
  "pat_unquote_selectors s = Some (g2, rest) \<Longrightarrow> length rest < length s"
  "pat_remove_url_quotes s = Some (g3, rest) \<Longrightarrow> length rest < length s"
  "pat_remove_whitespace s = Some (g4, rest) \<Longrightarrow> length rest < length s"
  "pat_remove_semicolons s = Some (g1, rest) \<Longrightarrow> length rest < length s"
  "pat_none_to_zero s = Some (g3, rest) \<Longrightarrow> length rest < length s"
  "pat_sub_zero_units s = Some (g5, rest) \<Longrightarrow> length rest < length s"
  "pat_shorten_floats s = Some (g6, rest) \<Longrightarrow> length rest < length s"
  "pat_rgb2hex s = Some (g7, rest) \<Longrightarrow> length rest < length s"
  "pat_hsl2hex s = Some (g7, rest) \<Longrightarrow> length rest < length s"
  "pat_shorten_hex s = Some (g3, rest) \<Longrightarrow> length rest < length s"
  "pat_rgba2hex s = Some (g7, rest) \<Longrightarrow> length rest < length s"
  "pat_hsla2hex s = Some (g7, rest) \<Longrightarrow> length rest < length s"
  "pat_remove_empty_rules s = Some (g1, rest) \<Longrightarrow> length rest < length s"
proof -
  show "pat_remove_comments s = Some (g1, rest) \<Longrightarrow> length rest < length s"
    by (auto simp: pat_remove_comments_def split: Option.bind_splits
             dest!: lit_length after_first_length)
  show "pat_unquote_selectors s = Some (g2, rest) \<Longrightarrow> length rest < length s"
    by (auto simp: pat_unquote_selectors_def split: Option.bind_splits
             dest!: lit_length many1_length)
  show "pat_remove_url_quotes s = Some (g3, rest) \<Longrightarrow> length rest < length s"
    by (rule pat_remove_url_quotes_consumes)
  show "pat_remove_whitespace s = Some (g4, rest) \<Longrightarrow> length rest < length s"
    by (auto dest: pat_remove_whitespace_length)
  show "pat_remove_semicolons s = Some (g1, rest) \<Longrightarrow> length rest < length s"
    by (auto simp: pat_remove_semicolons_def split: Option.bind_splits
             dest!: lit_length many1_length)
  show "pat_none_to_zero s = Some (g3, rest) \<Longrightarrow> length rest < length s"
    by (auto simp: pat_none_to_zero_def simp del: first_alt.simps split: Option.bind_splits
             dest!: lit_length first_alt_SomeD)
  show "pat_sub_zero_units s = Some (g5, rest) \<Longrightarrow> length rest < length s"
    by (auto simp: pat_sub_zero_units_def split: Option.bind_splits list.splits if_splits
             dest!: first_alt_SomeD)
  show "pat_shorten_floats s = Some (g6, rest) \<Longrightarrow> length rest < length s"
    by (auto simp: pat_shorten_floats_def split: Option.bind_splits list.splits if_splits
             dest!: lit_length many1_length)
  show "pat_rgb2hex s = Some (g7, rest) \<Longrightarrow> length rest < length s"
    by (auto dest: pat_rgb2hex_length)
  show "pat_hsl2hex s = Some (g7, rest) \<Longrightarrow> length rest < length s"
    by (auto dest: pat_hsl2hex_length)
  show "pat_shorten_hex s = Some (g3, rest) \<Longrightarrow> length rest < length s"
    by (auto dest: pat_shorten_hex_SomeD)
  show "pat_rgba2hex s = Some (g7, rest) \<Longrightarrow> length rest < length s"
    by (auto dest: pat_rgba2hex_length)
  show "pat_hsla2hex s = Some (g7, rest) \<Longrightarrow> length rest < length s"
    by (auto dest: pat_hsla2hex_length)
  show "pat_remove_empty_rules s = Some (g1, rest) \<Longrightarrow> length rest < length s"
    by (auto simp: pat_remove_empty_rules_def split: Option.bind_splits
             dest!: lit_length many1_length)
qed

text \<open>
  Claim C1: the output of \<open>minify_css\<close> is never longer than its input. This holds for
  every input string, well-formed or not, whenever the collaborators do not lengthen
  (\<open>collaborators_shorten\<close>) and the call returns.
\<close>

theorem minify_css_never_longer:
  assumes "collaborators_shorten env" and "minify_css env css = Inr out"
  shows "length out \<le> length css"
  using assms by (rule minify_css_length)

theorem minify_css_never_longer_witness:
  "collaborators_shorten spec_collaborators
   \<and> minify_css spec_collaborators ''a { color: rgb(255, 0, 0); }'' = Inr ''a{color:#f00}''
   \<and> length ''a{color:#f00}'' \<le> length ''a { color: rgb(255, 0, 0); }''"
proof -
  have m: "minify_css spec_collaborators ''a { color: rgb(255, 0, 0); }'' = Inr ''a{color:#f00}''"
    by code_simp
  show ?thesis
    using spec_collaborators_shorten m
      minify_css_never_longer [OF spec_collaborators_shorten m] by simp
qed

subsection \<open>Running the minifier twice\<close>









subsection \<open>\<open>none\<close> to \<open>0\<close>\<close>

text \<open>
  Claim C5 says that \<open>css_none_to_zero\<close> leaves \<open>none\<close> alone for every property other
  than \<open>border\<close> and \<open>opacity\<close>. The pattern has no boundary on its left, so a property
  whose name ends in one of the two is rewritten as well.
\<close>

theorem css_none_to_zero_counterexample:
  "css_none_to_zero ''fill-opacity:none'' = ''fill-opacity:0''"
  by code_simp

lemma prefix_append_drop:
  "prefix (p @ q) s \<longleftrightarrow> prefix p s \<and> prefix q (drop (length p) s)"
  by (auto simp: prefix_def)

lemma pat_none_to_zero_None_iff:
  "pat_none_to_zero s = None \<longleftrightarrow>
     \<not> prefix ''border:none'' s \<and> \<not> prefix ''opacity:none'' s"
proof -
  have a: "prefix ''border:none'' s \<longleftrightarrow>
             prefix ''border'' s \<and> prefix '':none'' (drop (length ''border'') s)"
    using prefix_append_drop [of "''border''" "'':none''" s] by simp
  have b: "prefix ''opacity:none'' s \<longleftrightarrow>
             prefix ''opacity'' s \<and> prefix '':none'' (drop (length ''opacity'') s)"
    using prefix_append_drop [of "''opacity''" "'':none''" s] by simp
  have c: "\<not> (prefix ''border'' s \<and> prefix ''opacity'' s)"
    by (auto simp: prefix_def)
  show ?thesis
    unfolding a b using c
    by (auto simp: pat_none_to_zero_def lit_def split: Option.bind_splits)
qed

lemma no_match_none_to_zero:
  "no_match pat_none_to_zero s \<longleftrightarrow>
     \<not> sublist ''border:none'' s \<and> \<not> sublist ''opacity:none'' s"
  by (induction s) (auto simp: pat_none_to_zero_None_iff sublist_Cons_right)

lemma css_none_to_zero_border:
  "css_none_to_zero (''border:none'' @ t) = ''border:0'' @ css_none_to_zero t"
  by (simp add: css_none_to_zero_def pat_none_to_zero_def lit_def)

lemma css_none_to_zero_opacity:
  "css_none_to_zero (''opacity:none'' @ t) = ''opacity:0'' @ css_none_to_zero t"
  by (simp add: css_none_to_zero_def pat_none_to_zero_def lit_def)

text \<open>
  Claim C5, amended: \<open>css_none_to_zero\<close> rewrites the text \<open>border:none\<close> to \<open>border:0\<close>
  and \<open>opacity:none\<close> to \<open>opacity:0\<close> wherever it meets it, scanning from the left, also
  at the end of a longer property name; a character at which neither text starts is
  copied, and an input in which neither text occurs is returned unchanged.
\<close>

theorem css_none_to_zero_rewrites:
  "css_none_to_zero (''border:none'' @ t) = ''border:0'' @ css_none_to_zero t
   \<and> css_none_to_zero (''opacity:none'' @ t) = ''opacity:0'' @ css_none_to_zero t
   \<and> (\<not> prefix ''border:none'' (c # t) \<and> \<not> prefix ''opacity:none'' (c # t)
        \<longrightarrow> css_none_to_zero (c # t) = c # css_none_to_zero t)
   \<and> (\<not> sublist ''border:none'' s \<and> \<not> sublist ''opacity:none'' s
        \<longrightarrow> css_none_to_zero s = s)"
proof -
  have "css_none_to_zero (c # t) = c # css_none_to_zero t"
    if "\<not> prefix ''border:none'' (c # t)" "\<not> prefix ''opacity:none'' (c # t)"
    using that pat_none_to_zero_None_iff [of "c # t"] by (simp add: css_none_to_zero_def)
  moreover have "css_none_to_zero s = s"
    if "\<not> sublist ''border:none'' s" "\<not> sublist ''opacity:none'' s"
    using that no_match_none_to_zero [of s] by (simp add: css_none_to_zero_def re_sub_no_match)
  ultimately show ?thesis
    using css_none_to_zero_border css_none_to_zero_opacity by blast
qed

theorem css_none_to_zero_rewrites_witness:
  "css_none_to_zero ''border:none}'' = ''border:0}''
   \<and> css_none_to_zero ''opacity:none}'' = ''opacity:0}''
   \<and> css_none_to_zero ''a{display:none}'' = ''a{display:none}''
   \<and> \<not> sublist ''border:none'' ''a{display:none}''"
proof -
  have a: "\<not> sublist ''border:none'' ''a{display:none}''" by code_simp
  have b: "\<not> sublist ''opacity:none'' ''a{display:none}''" by code_simp
  have c: "css_none_to_zero ''}'' = ''}''" by code_simp
  show ?thesis
    using a b c css_none_to_zero_rewrites [of "''}''" "CHR ''a''" "''a{display:none}''"] by simp
qed

subsection \<open>Named colours\<close>








subsection \<open>Six hex digits inside a longer literal\<close>

lemma then_do_Inr [simp]: "then_do (Inr x) f = f x"
  by (simp add: then_do_def)

lemma then_do_Inl [simp]: "then_do (Inl e) f = Inl e"
  by (simp add: then_do_def)

lemma then_do_return [simp]: "then_do r Inr = r"
  by (cases r) simp_all

lemma re_sub_fn_append:
  assumes loc: "\<And>w. w \<noteq> [] \<Longrightarrow> pat (w @ v) = map_option (\<lambda>(g, r). (g, r @ v)) (pat w)"
  shows "re_sub_fn pat fn (u @ v) =
           then_do (re_sub_fn pat fn u) (\<lambda>p. then_do (re_sub_fn pat fn v) (\<lambda>q. Inr (p @ q)))"
proof (induction u rule: length_induct)
  case (1 u)
  show ?case
  proof (cases u)
    case Nil
    then show ?thesis by (simp add: then_do_return [unfolded then_do_def] then_do_def split: sum.splits)
  next
    case (Cons c cs)
    have l: "pat (c # cs @ v) = map_option (\<lambda>(g, r). (g, r @ v)) (pat (c # cs))"
      using loc [of "c # cs"] by simp
    show ?thesis
    proof (cases "pat (c # cs)")
      case None
      have "length cs < length u" by (simp add: Cons)
      then have "re_sub_fn pat fn (cs @ v) =
           then_do (re_sub_fn pat fn cs) (\<lambda>p. then_do (re_sub_fn pat fn v) (\<lambda>q. Inr (p @ q)))"
        using 1 by blast
      then show ?thesis using None l
        by (simp add: Cons then_do_def split: sum.splits)
    next
      case (Some a)
      obtain g r where a: "a = (g, r)" by (cases a)
      show ?thesis
      proof (cases "length r \<le> length cs")
        case True
        then have "length r < length u" by (simp add: Cons)
        then have "re_sub_fn pat fn (r @ v) =
           then_do (re_sub_fn pat fn r) (\<lambda>p. then_do (re_sub_fn pat fn v) (\<lambda>q. Inr (p @ q)))"
          using 1 by blast
        then show ?thesis using Some a l True
          by (simp add: Cons then_do_def split: sum.splits)
      next
        case False
        have "length cs < length u" by (simp add: Cons)
        then have "re_sub_fn pat fn (cs @ v) =
           then_do (re_sub_fn pat fn cs) (\<lambda>p. then_do (re_sub_fn pat fn v) (\<lambda>q. Inr (p @ q)))"
          using 1 by blast
        then show ?thesis using Some a l False
          by (simp add: Cons then_do_def split: sum.splits)
      qed
    qed
  qed
qed

lemma is_hex_not_hash: "is_hex c \<Longrightarrow> c \<noteq> CHR ''#''"
  by (auto simp: is_hex_def)

lemma pat_shorten_hex_local:
  assumes "w \<noteq> []"
  shows "pat_shorten_hex (w @ CHR ''#'' # t) =
           map_option (\<lambda>(g, r). (g, r @ CHR ''#'' # t)) (pat_shorten_hex w)"
proof -
  obtain c cs where w: "w = c # cs" using assms by (cases w) auto
  show ?thesis
  proof (cases "c = CHR ''#''")
    case False
    then show ?thesis by (simp add: w pat_shorten_hex_def lit_def)
  next
    case True
    show ?thesis
    proof (cases "6 \<le> length cs")
      case True
      with \<open>c = CHR ''#''\<close> show ?thesis
        by (simp add: w pat_shorten_hex_def lit_def)
    next
      case False
      then obtain k where k: "6 - length cs = Suc k"
        by (cases "6 - length cs") auto
      have "CHR ''#'' \<in> set (take 6 (cs @ CHR ''#'' # t))"
        by (simp add: k)
      then have "\<not> list_all is_hex (take 6 (cs @ CHR ''#'' # t))"
        using is_hex_not_hash by (auto simp: list_all_iff)
      with False \<open>c = CHR ''#''\<close> show ?thesis
        by (simp add: w pat_shorten_hex_def lit_def)
    qed
  qed
qed

lemma css_shorten_hex_append_hash:
  "css_shorten_hex (u @ CHR ''#'' # t) =
     then_do (css_shorten_hex u) (\<lambda>p.
     then_do (css_shorten_hex (CHR ''#'' # t)) (\<lambda>q. Inr (p @ q)))"
  unfolding css_shorten_hex_def
  by (rule re_sub_fn_append) (rule pat_shorten_hex_local)

lemma css_shorten_hex_skip:
  "c \<noteq> CHR ''#'' \<Longrightarrow>
   css_shorten_hex (c # t) = then_do (css_shorten_hex t) (\<lambda>q. Inr (c # q))"
  by (simp add: css_shorten_hex_def pat_shorten_hex_def lit_def then_do_def)

lemma css_shorten_hex_doubled:
  assumes "is_hex a" "is_hex b" "is_hex c"
  shows "css_shorten_hex (CHR ''#'' # a # a # b # b # c # c # t) =
           then_do (css_shorten_hex t) (\<lambda>q. Inr (CHR ''#'' # a # b # c # q))"
  using assms
  by (simp add: css_shorten_hex_def pat_shorten_hex_def lit_def shorten_clr_def py_index_def
        then_do_def split: sum.splits)

text \<open>
  Claim C9: \<open>css_shorten_hex\<close> matches the first six digits of a longer hex literal. On
  an 8-digit colour whose first three pairs are doubled, anywhere in the input, it
  collapses those six digits to three and leaves the last two: \<open>#aabbccde\<close> becomes
  the 5-digit \<open>#abcde\<close>, the text before and after being rewritten on its own.
\<close>

theorem css_shorten_hex_eight_digits:
  assumes "is_hex a" "is_hex b" "is_hex c" "is_hex d" "is_hex e"
  shows "css_shorten_hex (pre @ CHR ''#'' # a # a # b # b # c # c # d # e # post) =
           then_do (css_shorten_hex pre) (\<lambda>p.
           then_do (css_shorten_hex post) (\<lambda>q.
             Inr (p @ CHR ''#'' # a # b # c # d # e # q)))"
proof -
  have "css_shorten_hex (CHR ''#'' # a # a # b # b # c # c # d # e # post) =
          then_do (css_shorten_hex post) (\<lambda>q. Inr (CHR ''#'' # a # b # c # d # e # q))"
    using assms
    by (simp add: css_shorten_hex_doubled css_shorten_hex_skip is_hex_not_hash then_do_def
          split: sum.splits)
  then show ?thesis
    by (simp add: css_shorten_hex_append_hash then_do_def split: sum.splits)
qed

theorem css_shorten_hex_eight_digits_witness:
  "is_hex CHR ''a'' \<and> is_hex CHR ''b'' \<and> is_hex CHR ''c'' \<and> is_hex CHR ''d''
   \<and> css_shorten_hex ''a{color:#aabbccdd}'' = Inr ''a{color:#abcdd}''"
proof -
  have h: "is_hex CHR ''a''" "is_hex CHR ''b''" "is_hex CHR ''c''" "is_hex CHR ''d''"
    by code_simp+
  have p: "css_shorten_hex ''a{color:'' = Inr ''a{color:''" "css_shorten_hex ''}'' = Inr ''}''"
    by code_simp+
  show ?thesis
    using h p css_shorten_hex_eight_digits [OF h(1) h(2) h(3) h(4) h(4), of "''a{color:''" "''}''"] by simp
qed

subsection \<open>Exceptions, and rules whose pattern does not occur\<close>

lemma re_sub_fn_Inl:
  "re_sub_fn pat fn s = Inl e \<Longrightarrow> \<exists>t g r. pat t = Some (g, r) \<and> fn g = Inl e"
proof (induction s rule: length_induct)
  case (1 s)
  show ?case
  proof (cases s)
    case Nil
    with 1 show ?thesis by simp
  next
    case (Cons c cs)
    show ?thesis
    proof (cases "pat (c # cs)")
      case None
      with 1(2) have "re_sub_fn pat fn cs = Inl e"
        by (auto simp: Cons split: sum.splits)
      moreover have "length cs < length s" by (simp add: Cons)
      ultimately show ?thesis using 1(1) by blast
    next
      case (Some a)
      obtain g r where a: "a = (g, r)" by (cases a)
      define nxt where "nxt = (if length r \<le> length cs then r else cs)"
      have "length nxt < length s" by (simp add: Cons nxt_def)
      moreover from 1(2) have "fn g = Inl e \<or> re_sub_fn pat fn nxt = Inl e"
        by (auto simp: Cons Some a nxt_def split: sum.splits)
      ultimately show ?thesis using 1(1) Some a by blast
    qed
  qed
qed

lemma css_shorten_hex_no_error: "css_shorten_hex s \<noteq> Inl e"
proof
  assume "css_shorten_hex s = Inl e"
  then obtain t g r where "pat_shorten_hex t = Some (g, r)" "shorten_clr g = Inl e"
    unfolding css_shorten_hex_def by (blast dest: re_sub_fn_Inl)
  then show False
    using shorten_clr_six [of g] by (auto dest!: pat_shorten_hex_SomeD)
qed

lemma minify_css_error_from_converter:
  assumes "minify_css env css = Inl e"
  shows "(\<exists>t g r. pat_rgb2hex t = Some (g, r) \<and> rgb_to_hex env g = Inl e)
       \<or> (\<exists>t g r. pat_hsl2hex t = Some (g, r) \<and> hsl_to_hex env g = Inl e)
       \<or> (\<exists>t g r. pat_rgba2hex t = Some (g, r) \<and> rgba_to_hex env g = Inl e)
       \<or> (\<exists>t g r. pat_hsla2hex t = Some (g, r) \<and> hsla_to_hex env g = Inl e)"
proof -
  from assms obtain x where
    "css_rgb2hex env x = Inl e \<or> css_hsl2hex env x = Inl e \<or> css_shorten_hex x = Inl e
     \<or> css_rgba2hex env x = Inl e \<or> css_hsla2hex env x = Inl e"
    unfolding minify_css_def Let_def then_do_def
    by (auto split: sum.splits)
  then show ?thesis
    unfolding css_rgb2hex_def css_hsl2hex_def css_rgba2hex_def css_hsla2hex_def
    using css_shorten_hex_no_error re_sub_fn_Inl
    by metis
qed

text \<open>
  Claim C8 says that every rule returns its input unchanged when its pattern does not
  occur in it. Two rules do more than their pattern: \<open>css_remove_whitespace\<close> also
  strips the text (and compacts \<open>and (\<close>, \<open>) and\<close>), and \<open>css_remove_semicolons\<close> also
  replaces \<open>;}\<close>, whether or not the regular expression matches.
\<close>

theorem rule_without_match_counterexample:
  "no_match pat_remove_whitespace '' a '' \<and> css_remove_whitespace '' a '' = ''a''
   \<and> css_remove_whitespace '' a '' \<noteq> '' a ''
   \<and> no_match pat_remove_semicolons ''a;}'' \<and> css_remove_semicolons ''a;}'' = ''a}''
   \<and> css_remove_semicolons ''a;}'' \<noteq> ''a;}''"
  by code_simp

text \<open>
  Claim C8, amended. No stage of \<open>css.py\<close> raises by itself: an exception of
  \<open>minify_css\<close>, on any string, is one that a colour converter raised on the groups of
  a match, so \<open>minify_css\<close> returns whenever the converters do. Every rule returns its
  input unchanged when nothing it looks for occurs: its regular expression, and for
  \<open>css_remove_whitespace\<close> also \<open>and (\<close>, \<open>) and\<close> and whitespace at either end, for
  \<open>css_remove_semicolons\<close> also \<open>;}\<close>, for \<open>css_sub_clrs\<close> every \<open>:keyword\<close> of the table,
  for \<open>css_font_weights\<close> its two literals.
\<close>

theorem minify_css_total_and_rules_no_op:
  "(minify_css env css = Inl e \<longrightarrow>
      (\<exists>t g r. pat_rgb2hex t = Some (g, r) \<and> rgb_to_hex env g = Inl e)
    \<or> (\<exists>t g r. pat_hsl2hex t = Some (g, r) \<and> hsl_to_hex env g = Inl e)
    \<or> (\<exists>t g r. pat_rgba2hex t = Some (g, r) \<and> rgba_to_hex env g = Inl e)
    \<or> (\<exists>t g r. pat_hsla2hex t = Some (g, r) \<and> hsla_to_hex env g = Inl e))
   \<and> (no_match pat_remove_comments s \<longrightarrow> css_remove_comments s = s)
   \<and> (no_match pat_remove_whitespace s \<and> \<not> sublist ''and ('' s \<and> \<not> sublist '') and'' s
        \<and> (s \<noteq> [] \<longrightarrow> \<not> is_space (hd s) \<and> \<not> is_space (last s))
        \<longrightarrow> css_remove_whitespace s = s)
   \<and> (no_match pat_unquote_selectors s \<longrightarrow> css_unquote_selectors s = s)
   \<and> (no_match pat_remove_url_quotes s \<longrightarrow> css_remove_url_quotes s = s)
   \<and> (no_match pat_remove_semicolons s \<and> \<not> sublist '';}'' s \<longrightarrow> css_remove_semicolons s = s)
   \<and> (no_match pat_none_to_zero s \<longrightarrow> css_none_to_zero s = s)
   \<and> (no_match pat_sub_zero_units s \<longrightarrow> css_sub_zero_units s = s)
   \<and> (no_match pat_shorten_floats s \<longrightarrow> css_shorten_floats s = s)
   \<and> (no_match pat_rgb2hex s \<longrightarrow> css_rgb2hex env s = Inr s)
   \<and> (no_match pat_hsl2hex s \<longrightarrow> css_hsl2hex env s = Inr s)
   \<and> (list_all (\<lambda>(k, h). \<not> sublist (CHR '':'' # k) s) (REPLACABLE_CLRS env)
        \<longrightarrow> css_sub_clrs (REPLACABLE_CLRS env) s = s)
   \<and> (no_match pat_shorten_hex s \<longrightarrow> css_shorten_hex s = Inr s)
   \<and> (no_match pat_rgba2hex s \<longrightarrow> css_rgba2hex env s = Inr s)
   \<and> (no_match pat_hsla2hex s \<longrightarrow> css_hsla2hex env s = Inr s)
   \<and> (no_match pat_remove_empty_rules s \<longrightarrow> css_remove_empty_rules s = s)
   \<and> (\<not> sublist ''font-weight:normal'' s \<and> \<not> sublist ''font-weight:bold'' s
        \<longrightarrow> css_font_weights s = s)"
proof -
  have ws: "css_remove_whitespace s = s"
    if "no_match pat_remove_whitespace s" "\<not> sublist ''and ('' s" "\<not> sublist '') and'' s"
       "s \<noteq> [] \<longrightarrow> \<not> is_space (hd s) \<and> \<not> is_space (last s)"
    using that by (simp add: css_remove_whitespace_def re_sub_no_match py_replace_no_occ strip_id)
  have semi: "css_remove_semicolons s = s"
    if "no_match pat_remove_semicolons s" "\<not> sublist '';}'' s"
    using that by (simp add: css_remove_semicolons_def re_sub_no_match py_replace_no_occ)
  have fw: "css_font_weights s = s"
    if "\<not> sublist ''font-weight:normal'' s" "\<not> sublist ''font-weight:bold'' s"
    using that by (simp add: css_font_weights_def py_replace_no_occ)
  show ?thesis
    using minify_css_error_from_converter [of env css e] ws semi fw
    by (simp add: css_remove_comments_def css_unquote_selectors_def css_remove_url_quotes_def
        css_none_to_zero_def css_sub_zero_units_def css_shorten_floats_def css_rgb2hex_def
        css_hsl2hex_def css_shorten_hex_def css_rgba2hex_def css_hsla2hex_def
        css_remove_empty_rules_def re_sub_no_match re_sub_fn_no_match css_sub_clrs_no_occ)
qed

theorem minify_css_total_and_rules_no_op_witness:
  "minify_css spec_collaborators ''a{color:rgba(0,0,0,.)}'' = Inl ValueError
   \<and> ((\<exists>t g r. pat_rgb2hex t = Some (g, r) \<and> rgb_to_hex spec_collaborators g = Inl ValueError)
    \<or> (\<exists>t g r. pat_hsl2hex t = Some (g, r) \<and> hsl_to_hex spec_collaborators g = Inl ValueError)
    \<or> (\<exists>t g r. pat_rgba2hex t = Some (g, r) \<and> rgba_to_hex spec_collaborators g = Inl ValueError)
    \<or> (\<exists>t g r. pat_hsla2hex t = Some (g, r) \<and> hsla_to_hex spec_collaborators g = Inl ValueError))
   \<and> no_match pat_remove_comments ''body'' \<and> css_remove_comments ''body'' = ''body''
   \<and> no_match pat_remove_whitespace ''body'' \<and> \<not> sublist ''and ('' ''body''
   \<and> \<not> sublist '') and'' ''body'' \<and> \<not> is_space (hd ''body'') \<and> \<not> is_space (last ''body'')
   \<and> css_remove_whitespace ''body'' = ''body''
   \<and> no_match pat_unquote_selectors ''body'' \<and> css_unquote_selectors ''body'' = ''body''
   \<and> no_match pat_remove_url_quotes ''body'' \<and> css_remove_url_quotes ''body'' = ''body''
   \<and> no_match pat_remove_semicolons ''body'' \<and> \<not> sublist '';}'' ''body''
   \<and> css_remove_semicolons ''body'' = ''body''
   \<and> no_match pat_none_to_zero ''body'' \<and> css_none_to_zero ''body'' = ''body''
   \<and> no_match pat_sub_zero_units ''body'' \<and> css_sub_zero_units ''body'' = ''body''
   \<and> no_match pat_shorten_floats ''body'' \<and> css_shorten_floats ''body'' = ''body''
   \<and> no_match pat_rgb2hex ''body'' \<and> css_rgb2hex spec_collaborators ''body'' = Inr ''body''
   \<and> no_match pat_hsl2hex ''body'' \<and> css_hsl2hex spec_collaborators ''body'' = Inr ''body''
   \<and> list_all (\<lambda>(k, h). \<not> sublist (CHR '':'' # k) ''body'') (REPLACABLE_CLRS spec_collaborators)
   \<and> css_sub_clrs (REPLACABLE_CLRS spec_collaborators) ''body'' = ''body''
   \<and> no_match pat_shorten_hex ''body'' \<and> css_shorten_hex ''body'' = Inr ''body''
   \<and> no_match pat_rgba2hex ''body'' \<and> css_rgba2hex spec_collaborators ''body'' = Inr ''body''
   \<and> no_match pat_hsla2hex ''body'' \<and> css_hsla2hex spec_collaborators ''body'' = Inr ''body''
   \<and> no_match pat_remove_empty_rules ''body'' \<and> css_remove_empty_rules ''body'' = ''body''
   \<and> \<not> sublist ''font-weight:normal'' ''body'' \<and> \<not> sublist ''font-weight:bold'' ''body''
   \<and> css_font_weights ''body'' = ''body''"
proof -
  have e: "minify_css spec_collaborators ''a{color:rgba(0,0,0,.)}'' = Inl ValueError"
    by code_simp
  have h: "no_match pat_remove_comments ''body''"
    "no_match pat_remove_whitespace ''body''" "\<not> sublist ''and ('' ''body''"
    "\<not> sublist '') and'' ''body''" "\<not> is_space (hd ''body'')" "\<not> is_space (last ''body'')"
    "no_match pat_unquote_selectors ''body''" "no_match pat_remove_url_quotes ''body''"
    "no_match pat_remove_semicolons ''body''" "\<not> sublist '';}'' ''body''"
    "no_match pat_none_to_zero ''body''" "no_match pat_sub_zero_units ''body''"
    "no_match pat_shorten_floats ''body''" "no_match pat_rgb2hex ''body''"
    "no_match pat_hsl2hex ''body''"
    "list_all (\<lambda>(k, h). \<not> sublist (CHR '':'' # k) ''body'') (REPLACABLE_CLRS spec_collaborators)"
    "no_match pat_shorten_hex ''body''" "no_match pat_rgba2hex ''body''"
    "no_match pat_hsla2hex ''body''" "no_match pat_remove_empty_rules ''body''"
    "\<not> sublist ''font-weight:normal'' ''body''" "\<not> sublist ''font-weight:bold'' ''body''"
    by code_simp+
  show ?thesis
    using e h minify_css_total_and_rules_no_op [of spec_collaborators "''a{color:rgba(0,0,0,.)}''" ValueError "''body''"]
    by simp
qed

subsection \<open>Hex literals produced by the rgba and hsla conversions\<close>




lemma digit_or_dot_cases:
  "is_digit_or_dot c \<Longrightarrow> \<not> is_space c \<and> \<not> is_alpha c \<and> \<not> is_punct c \<and> c \<noteq> CHR ''/''
     \<and> c \<noteq> CHR ''u'' \<and> c \<noteq> CHR '';'' \<and> c \<noteq> CHR '':'' \<and> c \<noteq> CHR ''b'' \<and> c \<noteq> CHR ''o''
     \<and> c \<noteq> CHR ''r'' \<and> c \<noteq> CHR ''h'' \<and> c \<noteq> CHR ''#''"
  by (auto simp: is_digit_or_dot_def is_digit_def is_space_def is_alpha_def is_punct_def Let_def)

lemma inert_pats [simp]:
  "inert pat_remove_comments" "inert pat_unquote_selectors" "inert pat_remove_url_quotes"
  "inert pat_remove_whitespace" "inert pat_remove_semicolons" "inert pat_none_to_zero"
  "inert pat_sub_zero_units" "inert pat_shorten_floats" "inert pat_rgb2hex" "inert pat_hsl2hex"
  "inert pat_shorten_hex" "inert pat_rgba2hex" "inert pat_hsla2hex"
  unfolding inert_def
  by (auto simp: pat_remove_comments_def pat_unquote_selectors_def pat_remove_url_quotes_def
        pat_remove_whitespace_def pat_remove_semicolons_def pat_none_to_zero_def
        pat_sub_zero_units_def pat_shorten_floats_def pat_rgb2hex_def pat_hsl2hex_def
        pat_shorten_hex_def pat_rgba2hex_def pat_hsla2hex_def lit_def many1_def
        split: list.splits dest!: digit_or_dot_cases)





















































end
